theory Spec2Isabelle
  imports Main "HOL-Library.Sublist"
begin

section \<open>Python strings\<close>

text \<open>
  A Python \<open>str\<close> is modelled as a \<open>string\<close>: the list of the bytes of its UTF-8
  encoding. In UTF-8 the encoding of one code point is never a part of the encoding of
  another, so a search for the encoding of a text finds what Python finds for the text:
  \<open>x in s\<close> is \<^const>\<open>sublist\<close>, \<open>s.startswith(x)\<close> is \<^const>\<open>prefix\<close>,
  \<open>s.endswith(x)\<close> is \<^const>\<open>suffix\<close>.
\<close>

definition lower_char :: "char \<Rightarrow> char" where
  "lower_char c =
     (case map_of (zip ''ABCDEFGHIJKLMNOPQRSTUVWXYZ'' ''abcdefghijklmnopqrstuvwxyz'') c of
        Some d \<Rightarrow> d
      | None \<Rightarrow> c)"

text \<open>
  \<open>s.lower()\<close> is modelled on the ASCII letters; the other bytes are kept. The program
  lowers a text only to look for \<open>instagram.com/reel/\<close> and \<open>instagram.com/p/\<close> in it
  (and \<open>urlparse\<close> lowers a scheme, which is ASCII). Python maps the letters beyond
  ASCII to code points beyond ASCII, with two exceptions: U+0130 becomes \<open>i\<close> followed
  by U+0307, and U+212A becomes \<open>k\<close>. Neither pattern has a \<open>k\<close>, and their only
  \<open>i\<close> is followed by \<open>n\<close>, so the search finds the patterns in the model exactly
  when it finds them in Python.
\<close>

definition lower :: "string \<Rightarrow> string" where
  "lower s = map lower_char s"

text \<open>
  The code points for which \<open>str.isspace\<close> holds, each as its UTF-8 encoding: these are
  what \<open>s.strip()\<close> removes from both ends and where \<open>s.split()\<close> cuts.
\<close>

definition WHITESPACE :: "string list" where
  "WHITESPACE =
    [[CHR 0x09], [CHR 0x0A], [CHR 0x0B],
     [CHR 0x0C], [CHR 0x0D], [CHR 0x1C],
     [CHR 0x1D], [CHR 0x1E], [CHR 0x1F],
     [CHR 0x20], [CHR 0xC2, CHR 0x85], [CHR 0xC2, CHR 0xA0],
     [CHR 0xE1, CHR 0x9A, CHR 0x80], [CHR 0xE2, CHR 0x80, CHR 0x80], [CHR 0xE2, CHR 0x80, CHR 0x81],
     [CHR 0xE2, CHR 0x80, CHR 0x82], [CHR 0xE2, CHR 0x80, CHR 0x83], [CHR 0xE2, CHR 0x80, CHR 0x84],
     [CHR 0xE2, CHR 0x80, CHR 0x85], [CHR 0xE2, CHR 0x80, CHR 0x86], [CHR 0xE2, CHR 0x80, CHR 0x87],
     [CHR 0xE2, CHR 0x80, CHR 0x88], [CHR 0xE2, CHR 0x80, CHR 0x89], [CHR 0xE2, CHR 0x80, CHR 0x8A],
     [CHR 0xE2, CHR 0x80, CHR 0xA8], [CHR 0xE2, CHR 0x80, CHR 0xA9], [CHR 0xE2, CHR 0x80, CHR 0xAF],
     [CHR 0xE2, CHR 0x81, CHR 0x9F], [CHR 0xE3, CHR 0x80, CHR 0x80]]"

function lstrip_seqs :: "string list \<Rightarrow> string \<Rightarrow> string" where
  "lstrip_seqs ws s =
     (case List.find (\<lambda>w. prefix w s) ws of
        None \<Rightarrow> s
      | Some w \<Rightarrow> if w = [] then s else lstrip_seqs ws (drop (length w) s))"
  by pat_completeness auto
termination
  by (relation "measure (\<lambda>(ws, s). length s)")
     (auto simp: find_Some_iff prefix_def)

definition strip :: "string \<Rightarrow> string" where
  \<comment> \<open>\<open>s.strip()\<close>\<close>
  "strip s = rev (lstrip_seqs (map rev WHITESPACE) (rev (lstrip_seqs WHITESPACE s)))"

fun first_word :: "string \<Rightarrow> string" where
  \<comment> \<open>\<open>s.split()[0]\<close> for a text that does not start with white space\<close>
  "first_word [] = []"
| "first_word (c # cs) =
     (if list_ex (\<lambda>w. prefix w (c # cs)) WHITESPACE then [] else c # first_word cs)"

definition strip_with :: "(char \<Rightarrow> bool) \<Rightarrow> string \<Rightarrow> string" where
  "strip_with P s = rev (dropWhile P (rev (dropWhile P s)))"

definition strip_chars :: "string \<Rightarrow> string \<Rightarrow> string" where
  \<comment> \<open>\<open>s.strip(chars)\<close>\<close>
  "strip_chars cs s = strip_with (\<lambda>c. c \<in> set cs) s"

text \<open>
  \<open>s.split(sep)\<close> for a non-empty separator: the pieces between the occurrences of
  \<open>sep\<close>, found from the left without overlap. \<open>cur\<close> is the piece being read.
\<close>

function split_from :: "string \<Rightarrow> string \<Rightarrow> string \<Rightarrow> string list" where
  "split_from sep cur [] = [cur]"
| "split_from sep cur (c # cs) =
     (if sep \<noteq> [] \<and> prefix sep (c # cs)
      then cur # split_from sep [] (drop (length sep) (c # cs))
      else split_from sep (cur @ [c]) cs)"
  by pat_completeness auto
termination
  by (relation "measure (\<lambda>(sep, cur, s). length s)") (auto simp: neq_Nil_conv)

definition split :: "string \<Rightarrow> string \<Rightarrow> string list" where
  "split sep s = split_from sep [] s"

section \<open>Exceptions\<close>

text \<open>
  The exception classes the program raises, catches or can receive from the libraries
  it calls; all are subclasses of \<open>Exception\<close>. The argument is the text of \<open>str(e)\<close>,
  except for \<open>CalledProcessError\<close>, whose argument is the result of
  \<open>e.stderr.decode()\<close>: the text, or \<open>None\<close> when the captured bytes are not valid
  UTF-8 and \<open>decode\<close> raises \<open>UnicodeDecodeError\<close>.
\<close>

datatype exn =
    ValueError string
  | IndexError string
  | FileNotFoundError string
  | BadResponseException string
  | CalledProcessError "string option"
  | UnicodeDecodeError string
  | StopIteration
  | OtherException string

fun str_of :: "exn \<Rightarrow> string" where
  "str_of (ValueError t) = t"
| "str_of (IndexError t) = t"
| "str_of (FileNotFoundError t) = t"
| "str_of (BadResponseException t) = t"
| "str_of (CalledProcessError _) = ''Command returned non-zero exit status''"
| "str_of (UnicodeDecodeError t) = t"
| "str_of StopIteration = []"
| "str_of (OtherException t) = t"

section \<open>\<open>urllib.parse.urlparse\<close>\<close>

text \<open>
  \<open>extract_shortcode\<close> reads \<open>netloc\<close> and \<open>path\<close> of \<open>urlparse(url)\<close>. The function
  belongs to Python's standard library; the model follows \<open>urlsplit\<close> and \<open>urlparse\<close>
  of CPython 3.11 (3.11.4 and later) step by step: leading C0 control characters and
  spaces are dropped, tab, CR and LF are removed, a scheme is split off at the first
  colon when everything before it is a scheme character and the first character is a
  letter, the network location runs from a leading \<open>//\<close> to the first of \<open>/ ? #\<close>, a
  host in square brackets is validated, then fragment and query are cut off, the
  network location is checked under NFKC normalisation, and (for the schemes that have
  them) the parameters of the last path segment are cut off.
\<close>

record parse_result =
  scheme :: string
  netloc :: string
  path :: string
  params :: string
  query :: string
  fragment :: string

definition scheme_chars :: string where
  "scheme_chars =
     ''abcdefghijklmnopqrstuvwxyzABCDEFGHIJKLMNOPQRSTUVWXYZ0123456789+-.''"

definition ascii_letters :: string where
  "ascii_letters = ''abcdefghijklmnopqrstuvwxyzABCDEFGHIJKLMNOPQRSTUVWXYZ''"

definition uses_params :: "string list" where
  "uses_params = ['''', ''ftp'', ''hdl'', ''prospero'', ''http'', ''imap'', ''https'',
     ''shttp'', ''rtsp'', ''rtsps'', ''rtspu'', ''sip'', ''sips'', ''mms'', ''sftp'',
     ''tel'']"

definition is_c0_or_space :: "char \<Rightarrow> bool" where
  "is_c0_or_space c = (of_char c \<le> (32::nat))"

definition partition_at :: "char \<Rightarrow> string \<Rightarrow> string \<times> string" where
  \<comment> \<open>\<open>s.split(c, 1)\<close> as a pair; the second part is empty when \<open>c\<close> does not occur.\<close>
  "partition_at c s = (takeWhile (\<lambda>x. x \<noteq> c) s, drop 1 (dropWhile (\<lambda>x. x \<noteq> c) s))"

definition split_scheme :: "string \<Rightarrow> string \<times> string" where
  "split_scheme u =
     (let pre = takeWhile (\<lambda>x. x \<noteq> CHR '':'') u in
      if CHR '':'' \<in> set u \<and> pre \<noteq> [] \<and> hd pre \<in> set ascii_letters
         \<and> list_all (\<lambda>c. c \<in> set scheme_chars) pre
      then (lower pre, drop (Suc (length pre)) u)
      else ('''', u))"

definition splitnetloc :: "string \<Rightarrow> string \<times> string" where
  \<comment> \<open>\<open>_splitnetloc(url, 2)\<close> for a \<open>url\<close> that starts with \<open>//\<close>\<close>
  "splitnetloc u =
     (let is_delim = (\<lambda>c. c \<in> set ''/?#'') in
      (takeWhile (\<lambda>c. \<not> is_delim c) (drop 2 u), dropWhile (\<lambda>c. \<not> is_delim c) (drop 2 u)))"

definition splitparams :: "string \<Rightarrow> string \<times> string" where
  \<comment> \<open>\<open>_splitparams\<close>: the first \<open>;\<close> of the last path segment\<close>
  "splitparams u =
     (let seg = rev (takeWhile (\<lambda>c. c \<noteq> CHR ''/'') (rev u));
          dir = take (length u - length seg) u
      in if CHR '';'' \<in> set seg
         then (dir @ fst (partition_at CHR '';'' seg), snd (partition_at CHR '';'' seg))
         else (u, ''''))"

subsection \<open>A host in square brackets\<close>

text \<open>
  \<open>_check_bracketed_host\<close>: the text between the brackets is an IPvFuture literal
  (\<open>v\<close>, hexadecimal digits, a dot, at least one more character) or what
  \<open>ipaddress.ip_address\<close> accepts as an IPv6 address, with an optional scope after
  \<open>%\<close>. The predicates say whether the parsers of \<open>ipaddress\<close> return; the value of
  the address plays no role.
\<close>

definition hex_digits :: string where
  "hex_digits = ''0123456789abcdefABCDEF''"

definition decimal_digits :: string where
  "decimal_digits = ''0123456789''"

definition decimal :: "string \<Rightarrow> nat" where
  \<comment> \<open>\<open>int(s, 10)\<close> of decimal digits\<close>
  "decimal s = foldl (\<lambda>n c. 10 * n + (of_char c - 48)) 0 s"

definition parse_octet_ok :: "string \<Rightarrow> bool" where
  \<comment> \<open>\<open>IPv4Address._parse_octet\<close> returns\<close>
  "parse_octet_ok s =
     (s \<noteq> [] \<and> list_all (\<lambda>c. c \<in> set decimal_digits) s \<and> length s \<le> 3
      \<and> (if s = ''0'' then True else hd s \<noteq> CHR ''0'')
      \<and> decimal s \<le> 255)"

definition ipv4_ok :: "string \<Rightarrow> bool" where
  \<comment> \<open>\<open>IPv4Address(s)\<close> returns\<close>
  "ipv4_ok s =
     (CHR ''/'' \<notin> set s \<and> s \<noteq> [] \<and> length (split ''.'' s) = 4
      \<and> list_all parse_octet_ok (split ''.'' s))"

definition parse_hextet_ok :: "string \<Rightarrow> bool" where
  \<comment> \<open>\<open>IPv6Address._parse_hextet\<close> returns\<close>
  "parse_hextet_ok h =
     (h \<noteq> [] \<and> list_all (\<lambda>c. c \<in> set hex_digits) h \<and> length h \<le> 4)"

definition ipv6_parts_ok :: "string list \<Rightarrow> bool" where
  \<comment> \<open>\<open>_ip_int_from_string\<close> from the test on the number of parts on; \<open>skips\<close> are the
      inner empty parts, \<open>hi\<close> and \<open>lo\<close> the numbers of parts before and after \<open>::\<close>\<close>
  "ipv6_parts_ok parts =
     (let n = length parts;
          skips = filter (\<lambda>i. parts ! i = []) [1 ..< n - 1]
      in if 9 < n then False
         else
           (case skips of
              [] \<Rightarrow> n = 8 \<and> list_all parse_hextet_ok parts
            | [k] \<Rightarrow>
                (let hi = (if hd parts = [] then k - 1 else k);
                     lo = (if last parts = [] then n - k - 2 else n - k - 1)
                 in (if hd parts = [] then hi = 0 else True)
                    \<and> (if last parts = [] then lo = 0 else True)
                    \<and> hi + lo \<le> 7
                    \<and> list_all parse_hextet_ok (take hi parts)
                    \<and> list_all parse_hextet_ok (drop (n - lo) parts))
            | _ \<Rightarrow> False))"

definition ipv6_ok :: "string \<Rightarrow> bool" where
  \<comment> \<open>\<open>IPv6Address(a)\<close> returns; a dotted last part is an IPv4 address, which stands
      for two hextets\<close>
  "ipv6_ok a =
     (let addr = fst (partition_at CHR ''%'' a);
          scope = snd (partition_at CHR ''%'' a);
          parts = split '':'' addr
      in CHR ''/'' \<notin> set a
         \<and> (if CHR ''%'' \<in> set a then scope \<noteq> [] \<and> CHR ''%'' \<notin> set scope else True)
         \<and> addr \<noteq> []
         \<and> 3 \<le> length parts
         \<and> (if CHR ''.'' \<in> set (last parts)
             then ipv4_ok (last parts) \<and> ipv6_parts_ok (butlast parts @ [''0'', ''0''])
             else ipv6_parts_ok parts))"

definition ipvfuture_ok :: "string \<Rightarrow> bool" where
  \<comment> \<open>the pattern \<open>v\<close>, one or more hexadecimal digits, a dot, one or more characters
      matches the whole text\<close>
  "ipvfuture_ok h =
     (let digits = takeWhile (\<lambda>c. c \<in> set hex_digits) (drop 1 h);
          rest = drop (length digits) (drop 1 h)
      in prefix ''v'' h \<and> digits \<noteq> [] \<and> prefix ''.'' rest \<and> 2 \<le> length rest)"

definition check_bracketed_host :: "string \<Rightarrow> exn option" where
  \<comment> \<open>the \<open>ValueError\<close> raised, if any. The last text holds \<open>repr\<close> of the host, written
      here between single quotes: what \<open>repr\<close> gives for printable ASCII characters
      without quote or backslash.\<close>
  "check_bracketed_host h =
     (if prefix ''v'' h
      then (if ipvfuture_ok h then None
            else Some (ValueError ''IPvFuture address is invalid''))
      else if ipv4_ok h then Some (ValueError ''An IPv4 address cannot be in brackets'')
      else if ipv6_ok h then None
      else Some (ValueError
             ([CHR 0x27] @ h @ [CHR 0x27]
              @ '' does not appear to be an IPv4 or IPv6 address'')))"

subsection \<open>The network location under NFKC\<close>

text \<open>
  \<open>_checknetloc\<close> raises when the network location, normalised to NFKC, has one of
  \<open>/ ? # @ :\<close> that it did not have before. That is the case exactly when it contains
  one of the code points whose compatibility decomposition holds such a character; in
  Unicode 14, which CPython 3.11 carries, these are U+2047, U+2048, U+2049, U+2100,
  U+2101, U+2105, U+2106, U+2A74, U+FE13, U+FE16, U+FE55, U+FE56, U+FE5F, U+FE6B,
  U+FF03, U+FF0F, U+FF1A, U+FF1F and U+FF20, below as their UTF-8 encodings.
\<close>

definition NFKC_DELIMITERS :: "string list" where
  "NFKC_DELIMITERS =
    [[CHR 0xE2, CHR 0x81, CHR 0x87], [CHR 0xE2, CHR 0x81, CHR 0x88], [CHR 0xE2, CHR 0x81, CHR 0x89],
     [CHR 0xE2, CHR 0x84, CHR 0x80], [CHR 0xE2, CHR 0x84, CHR 0x81], [CHR 0xE2, CHR 0x84, CHR 0x85],
     [CHR 0xE2, CHR 0x84, CHR 0x86], [CHR 0xE2, CHR 0xA9, CHR 0xB4], [CHR 0xEF, CHR 0xB8, CHR 0x93],
     [CHR 0xEF, CHR 0xB8, CHR 0x96], [CHR 0xEF, CHR 0xB9, CHR 0x95], [CHR 0xEF, CHR 0xB9, CHR 0x96],
     [CHR 0xEF, CHR 0xB9, CHR 0x9F], [CHR 0xEF, CHR 0xB9, CHR 0xAB], [CHR 0xEF, CHR 0xBC, CHR 0x83],
     [CHR 0xEF, CHR 0xBC, CHR 0x8F], [CHR 0xEF, CHR 0xBC, CHR 0x9A], [CHR 0xEF, CHR 0xBC, CHR 0x9F],
     [CHR 0xEF, CHR 0xBC, CHR 0xA0]]"

definition checknetloc :: "string \<Rightarrow> exn option" where
  "checknetloc loc =
     (if list_ex (\<lambda>w. sublist w loc) NFKC_DELIMITERS
      then Some (ValueError
             (''netloc '' @ [CHR 0x27] @ loc @ [CHR 0x27]
              @ '' contains invalid characters under NFKC normalization''))
      else None)"

subsection \<open>\<open>urlparse\<close>\<close>

definition bracketed_host :: "string \<Rightarrow> string" where
  \<comment> \<open>\<open>netloc.partition('[')[2].partition(']')[0]\<close>\<close>
  "bracketed_host loc = fst (partition_at CHR '']'' (snd (partition_at CHR ''['' loc)))"

definition urlparse :: "string \<Rightarrow> exn + parse_result" where
  "urlparse url =
     (let u0 = dropWhile is_c0_or_space url;
          u1 = filter (\<lambda>c. c \<notin> set [CHR 0x09, CHR 0x0D, CHR 0x0A]) u0;
          (sch, u2) = split_scheme u1;
          (loc, u3) = (if take 2 u2 = ''//'' then splitnetloc u2 else ('''', u2))
      in if (CHR ''['' \<in> set loc) \<noteq> (CHR '']'' \<in> set loc)
         then Inl (ValueError ''Invalid IPv6 URL'')
         else
           (case (if CHR ''['' \<in> set loc then check_bracketed_host (bracketed_host loc)
                  else None) of
              Some e \<Rightarrow> Inl e
            | None \<Rightarrow>
                let (u4, frag) = partition_at CHR ''#'' u3;
                    (u5, qry) = partition_at CHR ''?'' u4
                in (case checknetloc loc of
                      Some e \<Rightarrow> Inl e
                    | None \<Rightarrow>
                        let (u6, prm) = (if sch \<in> set uses_params \<and> CHR '';'' \<in> set u5
                                         then splitparams u5 else (u5, ''''))
                        in Inr \<lparr>scheme = sch, netloc = loc, path = u6, params = prm,
                                query = qry, fragment = frag\<rparr>)))"

section \<open>The link extractor\<close>

text \<open>
  \<open>extract_shortcode(url)\<close>. \<open>netloc.endswith(('instagram.com', 'www.instagram.com'))\<close>
  holds when the network location ends with either string. \<open>path.split(k)[1]\<close> raises
  \<open>IndexError\<close> on a list of one piece; the branch is written out, although the test
  \<open>k in path\<close> before it rules it out.
\<close>

definition second_piece_head :: "string \<Rightarrow> string \<Rightarrow> exn + string" where
  \<comment> \<open>\<open>path.split(k)[1].split('/')[0]\<close>\<close>
  "second_piece_head k p =
     (case split k p of
        _ # b # _ \<Rightarrow>
          (case split ''/'' b of
             x # _ \<Rightarrow> Inr x
           | [] \<Rightarrow> Inl (IndexError ''list index out of range''))
      | _ \<Rightarrow> Inl (IndexError ''list index out of range''))"

definition extract_shortcode :: "string \<Rightarrow> exn + string" where
  "extract_shortcode url =
     (case urlparse url of
        Inl e \<Rightarrow> Inl e
      | Inr parsed \<Rightarrow>
          if \<not> (suffix ''instagram.com'' (netloc parsed)
                 \<or> suffix ''www.instagram.com'' (netloc parsed))
          then Inl (ValueError ''Invalid Instagram URL'')
          else
            let p = strip_chars ''/'' (path parsed) in
            if sublist ''/reel/'' p then second_piece_head ''/reel/'' p
            else if sublist ''/p/'' p then second_piece_head ''/p/'' p
            else if length (split ''/'' p) = 1 \<and> p \<noteq> [] then Inr p
            else Inl (ValueError ''Couldn't extract reel shortcode''))"

section \<open>State, environment and observable events\<close>

text \<open>
  The process-wide state the handlers touch: the dictionary \<open>user_sessions\<close> and the
  content of the directory \<open>DOWNLOAD_DIR\<close>. The directory is an association list of
  entry names and kinds, in the order \<open>os.listdir\<close> returns them; lookups go through
  \<^const>\<open>map_of\<close>. The directory itself exists throughout: the program creates it when it
  starts, and nothing in it removes it.
\<close>

record session =
  url :: string
  shortcode :: string

datatype kind = RegularFile | Directory

type_synonym listing = "(string \<times> kind) list"

record state =
  user_sessions :: "int \<rightharpoonup> session"
  files :: listing

record message =
  chat_id :: int
  msg_text :: string

text \<open>
  What a handler does to the outside world, in order: the calls on the bot, the call of
  the retrieval client (\<open>Post.from_shortcode\<close> followed by \<open>download_post\<close>), the
  \<open>ffmpeg\<close> process and the records written with \<open>logger.error\<close>.
\<close>

datatype event =
    SendMessage int string "string list"
  | ReplyTo int string
  | SendChatAction int string
  | SendVideo int string
  | SendAudio int string
  | DownloadPost string
  | RunFfmpeg string string
  | LogError string

text \<open>
  The outcome of the retrieval client and of the conversion process. Both leave the
  scratch directory in some state, also when they fail. \<open>ExitedNonZero\<close> is
  \<open>subprocess.run(..., check=True)\<close> raising \<open>CalledProcessError\<close>; \<open>SpawnFailed\<close>
  is the process not starting at all.
\<close>

datatype fetch_result = Fetched listing | FetchFailed exn listing

datatype ffmpeg_result =
    Converted listing
  | ExitedNonZero "string option" listing
  | SpawnFailed string

text \<open>
  The environment fixes how every external call of one handler run ends: which bot
  calls raise (with the text of the exception), what the retrieval client and the
  conversion do, and which paths cannot be opened or unlinked. Its last field is of
  another kind: it fixes how the call of \<open>next\<close> in \<open>process_download\<close>, which the
  source leaves unclosed, is read (see there).
\<close>

record env =
  bot_raises :: "event \<Rightarrow> string option"
  download_post :: "string \<Rightarrow> listing \<Rightarrow> fetch_result"
  run_ffmpeg :: "string \<Rightarrow> string \<Rightarrow> listing \<Rightarrow> ffmpeg_result"
  open_raises :: "string \<Rightarrow> string option"
  unlink_raises :: "string \<Rightarrow> string option"
  next_has_default :: bool

definition bot_call :: "env \<Rightarrow> event \<Rightarrow> exn option" where
  "bot_call env ev = map_option OtherException (bot_raises env ev)"

subsection \<open>Literals\<close>

definition CROSS_MARK :: string where
  "CROSS_MARK = [CHR 0xE2, CHR 0x9D, CHR 0x8C]"

definition WARNING_SIGN :: string where
  "WARNING_SIGN = [CHR 0xE2, CHR 0x9A, CHR 0xA0]"

definition CHECK_MARK :: string where
  "CHECK_MARK = [CHR 0xE2, CHR 0x9C, CHR 0x85]"

definition MP4_LABEL :: string where
  "MP4_LABEL = ''MP4 '' @ [CHR 0xF0, CHR 0x9F, CHR 0x8E, CHR 0xA5]"

definition MP3_LABEL :: string where
  "MP3_LABEL = ''MP3 '' @ [CHR 0xF0, CHR 0x9F, CHR 0x8E, CHR 0xB5]"

definition DOWNLOAD_ANOTHER :: string where
  "DOWNLOAD_ANOTHER = [CHR 0xF0, CHR 0x9F, CHR 0x93, CHR 0xA5] @ '' Download Another''"

definition CHOOSE_FORMAT :: string where
  "CHOOSE_FORMAT = ''Choose download format:''"

definition INVALID_REEL_URL :: string where
  "INVALID_REEL_URL =
     CROSS_MARK @ '' Invalid Reel URL. Please send a valid public Instagram Reel link.''"

definition SEND_LINK_FIRST :: string where
  "SEND_LINK_FIRST = WARNING_SIGN @ '' Please send a Reel link first''"

definition INSTAGRAM_ERROR :: string where
  "INSTAGRAM_ERROR =
     CROSS_MARK @ '' Instagram error. The reel might be private or unavailable.''"

definition CONVERSION_FAILED :: string where
  "CONVERSION_FAILED = CROSS_MARK @ '' Audio conversion failed''"

definition ERROR_PREFIX :: string where
  "ERROR_PREFIX = CROSS_MARK @ '' Error: ''"

definition DOWNLOAD_COMPLETE :: string where
  "DOWNLOAD_COMPLETE = CHECK_MARK @ '' Download complete!''"

definition DOWNLOAD_DIR :: string where
  "DOWNLOAD_DIR = ''downloads''"

subsection \<open>Files of the scratch directory\<close>

definition join_path :: "string \<Rightarrow> string \<Rightarrow> string" where
  \<comment> \<open>\<open>os.path.join(a, b)\<close>\<close>
  "join_path a b =
     (if prefix ''/'' b then b
      else if a = [] \<or> suffix ''/'' a then a @ b
      else a @ ''/'' @ b)"

definition isfile :: "listing \<Rightarrow> string \<Rightarrow> bool" where
  \<comment> \<open>\<open>os.path.isfile\<close> of the entry of that name\<close>
  "isfile fs n = (map_of fs n = Some RegularFile)"

definition py_open :: "env \<Rightarrow> listing \<Rightarrow> string \<Rightarrow> exn option" where
  \<comment> \<open>\<open>open(path, 'rb')\<close> of the entry of that name; \<open>None\<close> when the file opens\<close>
  "py_open env fs n =
     (case map_of fs n of
        None \<Rightarrow> Some (FileNotFoundError ''No such file or directory'')
      | Some Directory \<Rightarrow> Some (OtherException ''Is a directory'')
      | Some RegularFile \<Rightarrow>
          map_option OtherException (open_raises env (join_path DOWNLOAD_DIR n)))"

definition os_remove :: "env \<Rightarrow> listing \<Rightarrow> string \<Rightarrow> exn + listing" where
  \<comment> \<open>\<open>os.remove\<close>, and \<open>os.unlink\<close>, of the entry of that name\<close>
  "os_remove env fs n =
     (case map_of fs n of
        None \<Rightarrow> Inl (FileNotFoundError ''No such file or directory'')
      | Some Directory \<Rightarrow> Inl (OtherException ''Is a directory'')
      | Some RegularFile \<Rightarrow>
          (case unlink_raises env (join_path DOWNLOAD_DIR n) of
             Some t \<Rightarrow> Inl (OtherException t)
           | None \<Rightarrow> Inr (filter (\<lambda>(x, k). x \<noteq> n) fs)))"

section \<open>Cleanup\<close>

text \<open>
  \<open>cleanup_directory()\<close>: the loop runs over the names \<open>os.listdir\<close> returned when it
  started; an exception of \<open>os.unlink\<close> is caught inside the loop and logged.
\<close>

fun cleanup_loop :: "env \<Rightarrow> string list \<Rightarrow> listing \<Rightarrow> listing \<times> event list" where
  "cleanup_loop env [] fs = (fs, [])"
| "cleanup_loop env (filename # rest) fs =
     (let file_path = join_path DOWNLOAD_DIR filename in
      if isfile fs filename then
        (case os_remove env fs filename of
           Inr fs' \<Rightarrow> cleanup_loop env rest fs'
         | Inl e \<Rightarrow>
             (case cleanup_loop env rest fs of
                (fs', evs) \<Rightarrow>
                  (fs', LogError (''Failed to delete '' @ file_path @ '': '' @ str_of e) # evs)))
      else cleanup_loop env rest fs)"

definition cleanup_directory :: "env \<Rightarrow> listing \<Rightarrow> listing \<times> event list" where
  "cleanup_directory env fs = cleanup_loop env (map fst fs) fs"

section \<open>The link handler\<close>

text \<open>
  \<open>handle_reel_url(message)\<close>. A handler returns the new state, the events it caused and
  the exception that leaves it, if any. \<open>message.text.split('?')[0]\<close> is the head of a
  list that \<open>split\<close> never returns empty.
\<close>

definition reel_try :: "env \<Rightarrow> message \<Rightarrow> state \<Rightarrow> state \<times> event list \<times> exn option" where
  \<comment> \<open>the \<open>try\<close> block\<close>
  "reel_try env m st =
     (let clean_url = strip (hd (split ''?'' (msg_text m))) in
      case extract_shortcode clean_url of
        Inl e \<Rightarrow> (st, [], Some e)
      | Inr sc \<Rightarrow>
          let st' = st\<lparr>user_sessions :=
                        (user_sessions st)(chat_id m \<mapsto> \<lparr>url = clean_url, shortcode = sc\<rparr>)\<rparr>;
              ask = SendMessage (chat_id m) CHOOSE_FORMAT [MP4_LABEL, MP3_LABEL]
          in (st', [ask], bot_call env ask))"

definition handle_reel_url :: "env \<Rightarrow> message \<Rightarrow> state \<Rightarrow> state \<times> event list \<times> exn option" where
  "handle_reel_url env m st =
     (case reel_try env m st of
        (st', evs, None) \<Rightarrow> (st', evs, None)
      | (st', evs, Some e) \<Rightarrow>
          let reply = ReplyTo (chat_id m) INVALID_REEL_URL
          in (st', evs @ [LogError (''URL handling error: '' @ str_of e), reply],
              bot_call env reply))"

section \<open>The download handler\<close>

text \<open>
  \<open>process_download(message)\<close>. In the source the call
  \<open>video_file = next((f for f in os.listdir(DOWNLOAD_DIR) if ...)\<close> is not closed, so
  the file does not parse as it stands. There are two ways to close it. With the
  parenthesis alone, \<open>next((...))\<close>, a generator that yields nothing makes \<open>next\<close> raise
  \<open>StopIteration\<close>. With a default as well, \<open>next((...), None)\<close>, the call returns
  \<open>None\<close> and the statement after it, \<open>if not video_file: raise FileNotFoundError\<close>,
  raises. The model follows both: \<open>next_has_default\<close> says which of the two a run
  takes, and whatever is stated for every environment holds for either.
\<close>

definition find_video :: "string \<Rightarrow> listing \<Rightarrow> string option" where
  \<comment> \<open>what the generator yields first: the first name, in listing order, that ends
      with \<open>.mp4\<close> and contains the identifier\<close>
  "find_video sc fs = List.find (\<lambda>f. suffix ''.mp4'' f \<and> sublist sc f) (map fst fs)"

definition next_video :: "env \<Rightarrow> string \<Rightarrow> listing \<Rightarrow> exn + string option" where
  \<comment> \<open>the call of \<open>next\<close>\<close>
  "next_video env sc fs =
     (case find_video sc fs of
        Some f \<Rightarrow> Inr (Some f)
      | None \<Rightarrow> if next_has_default env then Inr None else Inl StopIteration)"

definition send_as_video :: "env \<Rightarrow> int \<Rightarrow> string \<Rightarrow> state \<Rightarrow> state \<times> event list \<times> exn option" where
  \<comment> \<open>the branch \<open>format_type == "video"\<close>\<close>
  "send_as_video env chat video_file st =
     (let file_path = join_path DOWNLOAD_DIR video_file;
          act = SendChatAction chat ''upload_video'';
          snd_v = SendVideo chat file_path
      in case bot_call env act of
           Some e \<Rightarrow> (st, [act], Some e)
         | None \<Rightarrow>
             (case py_open env (files st) video_file of
                Some e \<Rightarrow> (st, [act], Some e)
              | None \<Rightarrow> (st, [act, snd_v], bot_call env snd_v)))"

definition send_as_audio :: "env \<Rightarrow> int \<Rightarrow> string \<Rightarrow> string \<Rightarrow> state \<Rightarrow> state \<times> event list \<times> exn option" where
  \<comment> \<open>the \<open>else\<close> branch: convert, send, remove the audio file\<close>
  "send_as_audio env chat sc video_file st =
     (let file_path = join_path DOWNLOAD_DIR video_file;
          audio_name = sc @ ''.mp3'';
          audio_path = join_path DOWNLOAD_DIR audio_name;
          run = RunFfmpeg file_path audio_path;
          act = SendChatAction chat ''upload_audio'';
          snd_a = SendAudio chat audio_path
      in case run_ffmpeg env file_path audio_path (files st) of
           SpawnFailed t \<Rightarrow> (st, [run], Some (OtherException t))
         | ExitedNonZero err fs \<Rightarrow> (st\<lparr>files := fs\<rparr>, [run], Some (CalledProcessError err))
         | Converted fs \<Rightarrow>
             (case bot_call env act of
                Some e \<Rightarrow> (st\<lparr>files := fs\<rparr>, [run, act], Some e)
              | None \<Rightarrow>
                  (case py_open env fs audio_name of
                     Some e \<Rightarrow> (st\<lparr>files := fs\<rparr>, [run, act], Some e)
                   | None \<Rightarrow>
                       (case bot_call env snd_a of
                          Some e \<Rightarrow> (st\<lparr>files := fs\<rparr>, [run, act, snd_a], Some e)
                        | None \<Rightarrow>
                            (case os_remove env fs audio_name of
                               Inl e \<Rightarrow> (st\<lparr>files := fs\<rparr>, [run, act, snd_a], Some e)
                             | Inr fs' \<Rightarrow> (st\<lparr>files := fs'\<rparr>, [run, act, snd_a], None))))))"

definition finish :: "env \<Rightarrow> int \<Rightarrow> string \<Rightarrow> state \<Rightarrow> state \<times> event list \<times> exn option" where
  \<comment> \<open>after delivery: \<open>os.remove(file_path)\<close>, \<open>user_sessions.pop(chat_id, None)\<close>,
      the completion message\<close>
  "finish env chat video_file st =
     (case os_remove env (files st) video_file of
        Inl e \<Rightarrow> (st, [], Some e)
      | Inr fs \<Rightarrow>
          let done = SendMessage chat DOWNLOAD_COMPLETE [DOWNLOAD_ANOTHER]
          in (st\<lparr>user_sessions := (user_sessions st)(chat := None), files := fs\<rparr>,
              [done], bot_call env done))"

definition try_body :: "env \<Rightarrow> message \<Rightarrow> session \<Rightarrow> state \<Rightarrow> state \<times> event list \<times> exn option" where
  \<comment> \<open>the \<open>try\<close> block; \<open>sess\<close> is \<open>user_sessions[chat_id]\<close>. \<open>not video_file\<close> holds for
      \<open>None\<close> and for the empty name.\<close>
  "try_body env m sess st =
     (let chat = chat_id m;
          typing = SendChatAction chat ''typing'';
          sc = shortcode sess;
          is_video = sublist ''MP4'' (msg_text m);
          fetch = DownloadPost sc;
          not_found = FileNotFoundError ''Downloaded file not found''
      in case bot_call env typing of
           Some e \<Rightarrow> (st, [typing], Some e)
         | None \<Rightarrow>
             (case download_post env sc (files st) of
                FetchFailed e fs \<Rightarrow> (st\<lparr>files := fs\<rparr>, [typing, fetch], Some e)
              | Fetched fs \<Rightarrow>
                  (case next_video env sc fs of
                     Inl e \<Rightarrow> (st\<lparr>files := fs\<rparr>, [typing, fetch], Some e)
                   | Inr None \<Rightarrow> (st\<lparr>files := fs\<rparr>, [typing, fetch], Some not_found)
                   | Inr (Some video_file) \<Rightarrow>
                       if video_file = []
                       then (st\<lparr>files := fs\<rparr>, [typing, fetch], Some not_found)
                       else
                         (case (if is_video
                                then send_as_video env chat video_file (st\<lparr>files := fs\<rparr>)
                                else send_as_audio env chat sc video_file (st\<lparr>files := fs\<rparr>)) of
                            (st1, evs, Some e) \<Rightarrow> (st1, [typing, fetch] @ evs, Some e)
                          | (st1, evs, None) \<Rightarrow>
                              (case finish env chat video_file st1 of
                                 (st2, evs', r) \<Rightarrow> (st2, [typing, fetch] @ evs @ evs', r))))))"

text \<open>
  The three \<open>except\<close> clauses, in the order of the source. An exception raised inside a
  clause leaves the handler: \<open>e.stderr.decode()\<close> on bytes that are not UTF-8, or a
  failing \<open>bot.reply_to\<close>.
\<close>

fun except_clauses :: "env \<Rightarrow> message \<Rightarrow> exn option \<Rightarrow> event list \<times> exn option" where
  "except_clauses env m None = ([], None)"
| "except_clauses env m (Some (BadResponseException t)) =
     (let reply = ReplyTo (chat_id m) INSTAGRAM_ERROR in ([reply], bot_call env reply))"
| "except_clauses env m (Some (CalledProcessError err)) =
     (case err of
        None \<Rightarrow> ([], Some (UnicodeDecodeError ''invalid start byte''))
      | Some t \<Rightarrow>
          let reply = ReplyTo (chat_id m) CONVERSION_FAILED
          in ([LogError (''FFmpeg error: '' @ t), reply], bot_call env reply))"
| "except_clauses env m (Some e) =
     (let reply = ReplyTo (chat_id m) (ERROR_PREFIX @ str_of e)
      in ([LogError (''Download error: '' @ str_of e), reply], bot_call env reply))"

definition attempt :: "env \<Rightarrow> message \<Rightarrow> session \<Rightarrow> state \<Rightarrow> state \<times> event list \<times> exn option" where
  \<comment> \<open>\<open>try\<close> and \<open>except\<close>, before \<open>finally\<close>\<close>
  "attempt env m sess st =
     (case try_body env m sess st of
        (st1, evs, raised) \<Rightarrow>
          (case except_clauses env m raised of
             (evs', out) \<Rightarrow> (st1, evs @ evs', out)))"

definition process_download :: "env \<Rightarrow> message \<Rightarrow> state \<Rightarrow> state \<times> event list \<times> exn option" where
  "process_download env m st =
     (case user_sessions st (chat_id m) of
        None \<Rightarrow>
          let reply = ReplyTo (chat_id m) SEND_LINK_FIRST
          in (st, [reply], bot_call env reply)
      | Some sess \<Rightarrow>
          (case attempt env m sess st of
             (st1, evs, out) \<Rightarrow>
               (case cleanup_directory env (files st1) of
                  (fs, logs) \<Rightarrow> (st1\<lparr>files := fs\<rparr>, evs @ logs, out))))"

section \<open>Message dispatch\<close>

text \<open>
  The handlers are registered in the order \<open>send_welcome\<close>, \<open>handle_reel_url\<close>,
  \<open>process_download\<close>, \<open>restart_flow\<close>; the bot runs the first one whose filter accepts
  the text. The \<open>commands\<close> filter of \<open>send_welcome\<close> accepts a text that starts with
  \<open>/\<close> and whose first word, up to an \<open>@\<close> and without the slash, is \<open>start\<close> or
  \<open>help\<close>.
\<close>

datatype handler = SendWelcome | HandleReelUrl | ProcessDownload | RestartFlow

definition is_welcome_command :: "string \<Rightarrow> bool" where
  "is_welcome_command t =
     (prefix ''/'' t \<and>
      drop 1 (takeWhile (\<lambda>c. c \<noteq> CHR ''@'') (first_word t))
        \<in> set [''start'', ''help''])"

definition is_reel_text :: "string \<Rightarrow> bool" where
  \<comment> \<open>\<open>any(x in m.text.lower() for x in ['instagram.com/reel/', 'instagram.com/p/'])\<close>\<close>
  "is_reel_text t =
     (sublist ''instagram.com/reel/'' (lower t) \<or> sublist ''instagram.com/p/'' (lower t))"

definition dispatch :: "string \<Rightarrow> handler option" where
  "dispatch t =
     (if is_welcome_command t then Some SendWelcome
      else if is_reel_text t then Some HandleReelUrl
      else if t \<in> set [MP4_LABEL, MP3_LABEL] then Some ProcessDownload
      else if t = DOWNLOAD_ANOTHER then Some RestartFlow
      else None)"

section \<open>Reading a run\<close>

text \<open>
  What the statements below read off a run: the texts of the replies, whether an event
  is a log record, and for the cleanup which entries it can delete and what it logs
  for the ones it cannot.
\<close>

fun reply_texts :: "event list \<Rightarrow> string list" where
  "reply_texts [] = []"
| "reply_texts (ReplyTo c t # evs) = t # reply_texts evs"
| "reply_texts (ev # evs) = reply_texts evs"

fun is_log :: "event \<Rightarrow> bool" where
  "is_log (LogError t) = True"
| "is_log ev = False"

fun is_delivery :: "event \<Rightarrow> bool" where
  "is_delivery (SendVideo c p) = True"
| "is_delivery (SendAudio c p) = True"
| "is_delivery ev = False"

definition deletable :: "env \<Rightarrow> listing \<Rightarrow> string \<Rightarrow> bool" where
  "deletable env fs n =
     (isfile fs n \<and> unlink_raises env (join_path DOWNLOAD_DIR n) = None)"

definition delete_log :: "env \<Rightarrow> listing \<Rightarrow> string \<Rightarrow> event list" where
  "delete_log env fs n =
     (if isfile fs n
      then (case unlink_raises env (join_path DOWNLOAD_DIR n) of
              Some t \<Rightarrow>
                [LogError (''Failed to delete '' @ join_path DOWNLOAD_DIR n @ '': '' @ t)]
            | None \<Rightarrow> [])
      else [])"

definition completion :: "int \<Rightarrow> event" where
  \<comment> \<open>the message sent right after \<open>user_sessions.pop\<close>\<close>
  "completion chat = SendMessage chat DOWNLOAD_COMPLETE [DOWNLOAD_ANOTHER]"

definition no_match_error :: "env \<Rightarrow> exn" where
  \<comment> \<open>what the \<open>try\<close> block raises when no name matches\<close>
  "no_match_error env =
     (if next_has_default env then FileNotFoundError ''Downloaded file not found''
      else StopIteration)"

definition is_bad_response :: "exn \<Rightarrow> bool" where
  "is_bad_response e = (case e of BadResponseException t \<Rightarrow> True | _ \<Rightarrow> False)"

definition is_called_process_error :: "exn \<Rightarrow> bool" where
  "is_called_process_error e = (case e of CalledProcessError err \<Rightarrow> True | _ \<Rightarrow> False)"

section \<open>Concrete runs\<close>

text \<open>
  An environment in which no call fails: the retrieval client writes the video of the
  reel, \<open>ffmpeg\<close> writes the audio file, \<open>next\<close> has a default. The others differ
  from it in one place.
\<close>

definition quiet_env :: env where
  "quiet_env =
     \<lparr>bot_raises = (\<lambda>ev. None),
      download_post = (\<lambda>sc fs. Fetched (fs @ [(''2024_'' @ sc @ ''.mp4'', RegularFile)])),
      run_ffmpeg = (\<lambda>i out fs. Converted (fs @ [(drop 10 out, RegularFile)])),
      open_raises = (\<lambda>p. None),
      unlink_raises = (\<lambda>p. None),
      next_has_default = True\<rparr>"

definition bad_response_env :: env where
  "bad_response_env =
     quiet_env\<lparr>download_post := (\<lambda>sc fs. FetchFailed (BadResponseException ''404'') fs)\<rparr>"

definition no_file_env :: env where
  "no_file_env =
     quiet_env\<lparr>download_post := (\<lambda>sc fs. Fetched (fs @ [(''2024_'' @ sc @ ''.txt'', RegularFile)]))\<rparr>"

definition no_file_plain_env :: env where
  "no_file_plain_env = no_file_env\<lparr>next_has_default := False\<rparr>"

definition ffmpeg_fails_env :: env where
  "ffmpeg_fails_env =
     quiet_env\<lparr>run_ffmpeg := (\<lambda>i out fs. ExitedNonZero None fs)\<rparr>"

definition stuck_file_env :: env where
  "stuck_file_env =
     quiet_env\<lparr>download_post := (\<lambda>sc fs. FetchFailed (OtherException ''timed out'') fs),
               unlink_raises := (\<lambda>p. if p = ''downloads/locked.tmp'' then Some ''busy'' else None)\<rparr>"

definition pending_state :: state where
  "pending_state =
     \<lparr>user_sessions = [7 \<mapsto> \<lparr>url = ''https://instagram.com/ABC123'', shortcode = ''ABC123''\<rparr>],
      files = [(''locked.tmp'', RegularFile), (''sub'', Directory)]\<rparr>"

definition idle_state :: state where
  "idle_state = \<lparr>user_sessions = Map.empty, files = []\<rparr>"

definition mp4_request :: message where
  "mp4_request = \<lparr>chat_id = 7, msg_text = MP4_LABEL\<rparr>"

definition mp3_request :: message where
  "mp3_request = \<lparr>chat_id = 7, msg_text = MP3_LABEL\<rparr>"

definition example_link :: message where
  "example_link = \<lparr>chat_id = 7, msg_text = ''https://instagram.com/reel/ABC123?utm=x''\<rparr>"

definition foreign_link :: message where
  "foreign_link = \<lparr>chat_id = 7, msg_text = ''https://example.com/reel/ABC123''\<rparr>"

definition query_link :: message where
  "query_link =
     \<lparr>chat_id = 7, msg_text = ''https://instagram.com/ABC123?ref=instagram.com/reel/''\<rparr>"

section \<open>Strings: facts\<close>

lemma split_from_not_Nil: "split_from sep cur s \<noteq> []"
  by (induction sep cur s rule: split_from.induct) auto

lemma split_from_single_no_sep: "length (split_from [c] cur s) = 1 \<Longrightarrow> c \<notin> set s"
  by (induction "[c]" cur s rule: split_from.induct)
     (auto simp: split_from_not_Nil split: if_splits)

lemma lower_char_slash: "lower_char x = CHR ''/'' \<Longrightarrow> x = CHR ''/''"
  unfolding lower_char_def by (simp split: if_splits)

lemma bare_segment_has_no_slash:
  "length (split ''/'' p) = 1 \<Longrightarrow> CHR ''/'' \<notin> set p"
  unfolding split_def by (rule split_from_single_no_sep)

lemma no_slash_not_reel_text:
  assumes "CHR ''/'' \<notin> set p"
  shows "\<not> is_reel_text p"
proof
  assume "is_reel_text p"
  then have "CHR ''/'' \<in> set (lower p)"
    unfolding is_reel_text_def by (auto dest!: set_mono_sublist)
  then obtain x where "x \<in> set p" "lower_char x = CHR ''/''"
    unfolding lower_def by auto
  then show False
    using assms lower_char_slash by blast
qed

section \<open>The link extractor and the link handler: the claims\<close>

text \<open>
  What the host test and the path tests do: a network location that does not end with
  \<open>instagram.com\<close> is refused, and a keyword is found when another segment precedes it.
\<close>

lemma other_suffix_is_rejected:
  "urlparse u = Inr r \<Longrightarrow> \<not> suffix ''instagram.com'' (netloc r) \<Longrightarrow>
   extract_shortcode u = Inl (ValueError ''Invalid Instagram URL'')"
  by (auto simp: extract_shortcode_def suffix_def)

lemma keyword_after_a_segment_is_found:
  "extract_shortcode ''https://instagram.com/someone/reel/ABC123/'' = Inr ''ABC123''"
  by code_simp

text \<open>
  C1. The specification's example: the message text
  \<open>https://instagram.com/reel/ABC123?utm=x\<close> is cut at the question mark to
  \<open>https://instagram.com/reel/ABC123\<close>, and the identifier \<open>ABC123\<close> is expected. The
  code strips the slashes off both ends of the path before it looks for \<open>/reel/\<close>, so
  the keyword directly after the host is not found: the extractor raises, and the
  handler answers that the link is invalid and stores no session.
\<close>

theorem example_link_is_rejected:
  "strip (hd (split ''?'' (msg_text example_link))) = ''https://instagram.com/reel/ABC123''
   \<and> extract_shortcode ''https://instagram.com/reel/ABC123''
       = Inl (ValueError ''Couldn't extract reel shortcode'')
   \<and> (case handle_reel_url quiet_env example_link idle_state of
         (st, evs, out) \<Rightarrow> (user_sessions st 7, reply_texts evs, out))
       = (None, [INVALID_REEL_URL], None)"
  by code_simp

text \<open>
  C3. A host that is not the platform's domain nor a subdomain of it, but whose name
  ends with the letters \<open>instagram.com\<close>, passes the host test, and the extractor
  returns an identifier for it.
\<close>

theorem foreign_host_is_accepted:
  "extract_shortcode ''https://evilinstagram.com/ABC123'' = Inr ''ABC123''"
  by code_simp

text \<open>
  C9. When the extractor raises on the cleaned link, the handler logs the error and
  replies that the link is invalid; the state, and with it the session of every
  conversation, is what it was.
\<close>

theorem parse_failure_keeps_state:
  "extract_shortcode (strip (hd (split ''?'' (msg_text m)))) = Inl e \<Longrightarrow>
   handle_reel_url env m st =
     (st,
      [LogError (''URL handling error: '' @ str_of e), ReplyTo (chat_id m) INVALID_REEL_URL],
      bot_call env (ReplyTo (chat_id m) INVALID_REEL_URL))"
  by (simp add: handle_reel_url_def reel_try_def Let_def)

theorem parse_failure_keeps_state_witness:
  "extract_shortcode (strip (hd (split ''?'' (msg_text foreign_link))))
     = Inl (ValueError ''Invalid Instagram URL'')
   \<and> handle_reel_url quiet_env foreign_link pending_state =
       (pending_state,
        [LogError ''URL handling error: Invalid Instagram URL'', ReplyTo 7 INVALID_REEL_URL],
        None)"
proof -
  have h: "extract_shortcode (strip (hd (split ''?'' (msg_text foreign_link))))
             = Inl (ValueError ''Invalid Instagram URL'')"
    by code_simp
  show ?thesis
    using h parse_failure_keeps_state [OF h, of quiet_env pending_state]
    by (simp add: foreign_link_def quiet_env_def bot_call_def)
qed

text \<open>
  C10, as the code has it. The link handler runs only for a text that contains, in
  lower case, \<open>instagram.com/reel/\<close> or \<open>instagram.com/p/\<close>. That does not keep the
  bare single segment out: the filter reads the whole text, the extractor only what is
  left of it as the path. What holds is that an identifier taken from a bare segment
  is the stripped path itself, has no slash and contains neither pattern.
\<close>

theorem reel_handler_fires_only_on_keyword:
  "(dispatch t = Some HandleReelUrl \<longrightarrow>
      sublist ''instagram.com/reel/'' (lower t) \<or> sublist ''instagram.com/p/'' (lower t))
   \<and> (urlparse u = Inr r \<and> extract_shortcode u = Inr sc
        \<and> \<not> sublist ''/reel/'' (strip_chars ''/'' (path r))
        \<and> \<not> sublist ''/p/'' (strip_chars ''/'' (path r))
       \<longrightarrow> sc = strip_chars ''/'' (path r) \<and> CHR ''/'' \<notin> set sc \<and> \<not> is_reel_text sc)"
proof (intro conjI impI)
  assume "dispatch t = Some HandleReelUrl"
  then show "sublist ''instagram.com/reel/'' (lower t) \<or> sublist ''instagram.com/p/'' (lower t)"
    by (simp add: dispatch_def is_reel_text_def split: if_splits)
next
  assume a: "urlparse u = Inr r \<and> extract_shortcode u = Inr sc
        \<and> \<not> sublist ''/reel/'' (strip_chars ''/'' (path r))
        \<and> \<not> sublist ''/p/'' (strip_chars ''/'' (path r))"
  then have b: "sc = strip_chars ''/'' (path r) \<and> length (split ''/'' sc) = 1"
    by (auto simp: extract_shortcode_def Let_def split: if_splits)
  then show "sc = strip_chars ''/'' (path r)" by simp
  from b show "CHR ''/'' \<notin> set sc"
    using bare_segment_has_no_slash by blast
  then show "\<not> is_reel_text sc"
    by (rule no_slash_not_reel_text)
qed

theorem reel_handler_fires_only_on_keyword_witness:
  "dispatch (msg_text query_link) = Some HandleReelUrl
   \<and> sublist ''instagram.com/reel/'' (lower (msg_text query_link))
   \<and> extract_shortcode ''https://instagram.com/ABC123'' = Inr ''ABC123''
   \<and> \<not> is_reel_text ''ABC123''"
proof -
  let ?r = "\<lparr>scheme = ''https'', netloc = ''instagram.com'', path = ''/ABC123'',
              params = [], query = [], fragment = []\<rparr>"
  have h1: "dispatch (msg_text query_link) = Some HandleReelUrl"
    by code_simp
  have h2: "urlparse ''https://instagram.com/ABC123'' = Inr ?r
            \<and> extract_shortcode ''https://instagram.com/ABC123'' = Inr ''ABC123''
            \<and> \<not> sublist ''/reel/'' (strip_chars ''/'' (path ?r))
            \<and> \<not> sublist ''/p/'' (strip_chars ''/'' (path ?r))"
    by code_simp
  have h3: "\<not> sublist ''instagram.com/p/'' (lower (msg_text query_link))"
    by code_simp
  note t = reel_handler_fires_only_on_keyword
             [of "msg_text query_link" "''https://instagram.com/ABC123''" ?r "''ABC123''"]
  show ?thesis
    using t h1 h2 h3 by blast
qed

text \<open>
  C10, as stated, fails: the text \<open>https://instagram.com/ABC123?ref=instagram.com/reel/\<close>
  passes the filter because of what follows the question mark, is cut to
  \<open>https://instagram.com/ABC123\<close>, whose path is the single segment \<open>ABC123\<close>, and a
  session with that identifier is stored.
\<close>

theorem bare_segment_session_counterexample:
  "dispatch (msg_text query_link) = Some HandleReelUrl
   \<and> (case handle_reel_url quiet_env query_link idle_state of
         (st, evs, out) \<Rightarrow> (user_sessions st 7, out))
       = (Some \<lparr>url = ''https://instagram.com/ABC123'', shortcode = ''ABC123''\<rparr>, None)
   \<and> urlparse ''https://instagram.com/ABC123''
       = Inr \<lparr>scheme = ''https'', netloc = ''instagram.com'', path = ''/ABC123'',
              params = [], query = [], fragment = []\<rparr>
   \<and> split ''/'' (strip_chars ''/'' ''/ABC123'') = [''ABC123'']"
  by code_simp

section \<open>Cleanup: facts\<close>

text \<open>
  The loop in closed form: it removes the entries that are regular files and whose
  unlink succeeds, keeps every other entry, and logs one record for each regular file
  it could not unlink.
\<close>

lemma reply_texts_append: "reply_texts (xs @ ys) = reply_texts xs @ reply_texts ys"
  by (induction xs rule: reply_texts.induct) auto

lemma reply_texts_logs: "list_all is_log evs \<Longrightarrow> reply_texts evs = []"
  by (induction evs rule: reply_texts.induct) auto

lemma map_of_filter_other:
  "x \<noteq> n \<Longrightarrow> map_of (filter (\<lambda>(y, k). y \<noteq> n) fs) x = map_of fs x"
  by (induction fs) auto

lemma isfile_filter_other:
  "x \<noteq> n \<Longrightarrow> isfile (filter (\<lambda>(y, k). y \<noteq> n) fs) x = isfile fs x"
  by (simp add: isfile_def map_of_filter_other)

lemma deletable_filter_other:
  "x \<noteq> n \<Longrightarrow> deletable env (filter (\<lambda>(y, k). y \<noteq> n) fs) x = deletable env fs x"
  by (simp add: deletable_def isfile_filter_other)

lemma delete_log_filter_other:
  "x \<noteq> n \<Longrightarrow> delete_log env (filter (\<lambda>(y, k). y \<noteq> n) fs) x = delete_log env fs x"
  by (simp add: delete_log_def isfile_filter_other)

lemma os_remove_file:
  "isfile fs n \<Longrightarrow> os_remove env fs n =
     (case unlink_raises env (join_path DOWNLOAD_DIR n) of
        Some t \<Rightarrow> Inl (OtherException t)
      | None \<Rightarrow> Inr (filter (\<lambda>(x, k). x \<noteq> n) fs))"
  by (simp add: os_remove_def isfile_def)

lemma cleanup_loop_closed:
  "cleanup_loop env ns fs =
     (filter (\<lambda>(x, k). \<not> (x \<in> set ns \<and> deletable env fs x)) fs,
      concat (map (delete_log env fs) ns))"
proof (induction ns arbitrary: fs)
  case Nil
  show ?case by simp
next
  case (Cons n ns)
  show ?case
  proof (cases "isfile fs n")
    case False
    then show ?thesis
      using Cons.IH [of fs]
      by (auto simp: deletable_def delete_log_def intro!: filter_cong)
  next
    case True
    note isf = True
    show ?thesis
    proof (cases "unlink_raises env (join_path DOWNLOAD_DIR n)")
      case (Some t)
      then show ?thesis
        using isf Cons.IH [of fs]
        by (auto simp: os_remove_file deletable_def delete_log_def intro!: filter_cong)
    next
      case None
      let ?fs = "filter (\<lambda>(x, k). x \<noteq> n) fs"
      have step: "cleanup_loop env (n # ns) fs = cleanup_loop env ns ?fs"
        using isf None by (simp add: os_remove_file)
      have a: "filter (\<lambda>(x, k). \<not> (x \<in> set ns \<and> deletable env ?fs x)) ?fs
               = filter (\<lambda>(x, k). \<not> (x \<in> set (n # ns) \<and> deletable env fs x)) fs"
      proof -
        have dn: "deletable env fs n"
          using isf None by (simp add: deletable_def)
        have "filter (\<lambda>(x, k). \<not> (x \<in> set ns \<and> deletable env ?fs x)) ?fs
              = filter (\<lambda>(x, k). x \<noteq> n \<and> \<not> (x \<in> set ns \<and> deletable env ?fs x)) fs"
          by (simp add: case_prod_unfold conj_commute)
        also have "\<dots> = filter (\<lambda>(x, k). \<not> (x \<in> set (n # ns) \<and> deletable env fs x)) fs"
        proof (rule filter_cong [OF refl])
          fix e assume "e \<in> set fs"
          show "(case e of (x, k) \<Rightarrow> x \<noteq> n \<and> \<not> (x \<in> set ns \<and> deletable env ?fs x))
                = (case e of (x, k) \<Rightarrow> \<not> (x \<in> set (n # ns) \<and> deletable env fs x))"
          proof (cases "fst e = n")
            case True
            then show ?thesis using dn by (simp add: case_prod_unfold)
          next
            case False
            then show ?thesis
              using deletable_filter_other [of "fst e" n env fs]
              by (simp add: case_prod_unfold)
          qed
        qed
        finally show ?thesis .
      qed
      have b: "map (delete_log env ?fs) ns = map (delete_log env fs) ns"
      proof (rule map_cong [OF refl])
        fix x assume "x \<in> set ns"
        show "delete_log env ?fs x = delete_log env fs x"
        proof (cases "x = n")
          case True
          then show ?thesis using None by (simp add: delete_log_def)
        next
          case False
          then show ?thesis by (rule delete_log_filter_other)
        qed
      qed
      have c: "delete_log env fs n = []"
        using None by (simp add: delete_log_def)
      show ?thesis
        unfolding step Cons.IH [of ?fs] a b using c by simp
    qed
  qed
qed

lemma cleanup_directory_closed:
  "cleanup_directory env fs =
     (filter (\<lambda>(x, k). \<not> deletable env fs x) fs,
      concat (map (delete_log env fs) (map fst fs)))"
  unfolding cleanup_directory_def cleanup_loop_closed
  by (force intro!: filter_cong)

lemma delete_log_is_log: "list_all is_log (delete_log env fs n)"
  by (simp add: delete_log_def split: option.splits)

lemma cleanup_logs_only: "list_all is_log (snd (cleanup_directory env fs))"
  unfolding cleanup_directory_closed
  using delete_log_is_log by (auto simp: list_all_iff)

lemma logs_no_completion: "list_all is_log evs \<Longrightarrow> completion c \<notin> set evs"
  by (auto simp: list_all_iff completion_def)

lemma logs_no_delivery: "list_all is_log evs \<Longrightarrow> list_all (\<lambda>ev. \<not> is_delivery ev) evs"
proof (induction evs)
  case Nil
  show ?case by simp
next
  case (Cons ev evs)
  then show ?case by (cases ev) auto
qed

lemma map_of_filter_key:
  "map_of (filter (\<lambda>(n, k). Q n) fs) x = (if Q x then map_of fs x else None)"
  by (induction fs) auto

section \<open>The download handler: facts\<close>

lemma send_as_video_inv:
  "send_as_video env chat v st = (st1, evs, r) \<Longrightarrow>
     st1 = st \<and> reply_texts evs = [] \<and> completion chat' \<notin> set evs"
  by (auto simp: send_as_video_def Let_def completion_def split: option.splits)

lemma send_as_audio_inv:
  "send_as_audio env chat sc v st = (st1, evs, r) \<Longrightarrow>
     user_sessions st1 = user_sessions st \<and> reply_texts evs = [] \<and> completion chat' \<notin> set evs"
  by (auto simp: send_as_audio_def Let_def completion_def
           split: option.splits ffmpeg_result.splits sum.splits)

lemma finish_inv:
  "finish env chat v st = (st1, evs, r) \<Longrightarrow>
     reply_texts evs = []
     \<and> user_sessions st1 =
         (if completion chat \<in> set evs then (user_sessions st)(chat := None)
          else user_sessions st)"
  by (auto simp: finish_def Let_def completion_def split: sum.splits)

lemma try_body_inv:
  assumes "try_body env m sess st = (st1, evs, r)"
  shows "reply_texts evs = []"
    and "user_sessions st1 =
         (if completion (chat_id m) \<in> set evs then (user_sessions st)(chat_id m := None)
          else user_sessions st)"
  using assms
  by (auto simp: try_body_def Let_def completion_def reply_texts_append
           split: option.splits fetch_result.splits sum.splits prod.splits if_splits
           dest!: send_as_video_inv [where chat' = "chat_id m"]
                  send_as_audio_inv [where chat' = "chat_id m"] finish_inv)

lemma except_clauses_events:
  "except_clauses env m r = (evs, out) \<Longrightarrow> completion c \<notin> set evs \<and> list_all (\<lambda>ev. \<not> is_delivery ev) evs"
  by (cases "(env, m, r)" rule: except_clauses.cases)
     (auto simp: completion_def Let_def split: option.splits)

lemma process_download_unfold:
  assumes "user_sessions st (chat_id m) = Some sess"
    and "try_body env m sess st = (st1, evs1, r)"
  shows "process_download env m st =
           (st1\<lparr>files := fst (cleanup_directory env (files st1))\<rparr>,
            evs1 @ fst (except_clauses env m r) @ snd (cleanup_directory env (files st1)),
            snd (except_clauses env m r))"
  using assms
  by (simp add: process_download_def attempt_def split: prod.splits)

lemma find_video_None:
  "find_video sc fs = None \<longleftrightarrow> (\<forall>f \<in> set (map fst fs). \<not> (suffix ''.mp4'' f \<and> sublist sc f))"
  by (auto simp: find_video_def find_None_iff)

lemma find_video_nonempty: "find_video sc fs = Some v \<Longrightarrow> v \<noteq> []"
  by (auto simp: find_video_def find_Some_iff)

lemma pending_session:
  "user_sessions pending_state 7
     = Some \<lparr>url = ''https://instagram.com/ABC123'', shortcode = ''ABC123''\<rparr>"
  by (simp add: pending_state_def)

section \<open>The download handler: the claims\<close>

text \<open>
  C7. A format selection for a conversation without a pending session: the handler
  replies with the precondition message and does nothing else. The state is unchanged
  and the reply is the only event, so neither the retrieval client nor the conversion
  nor a delivery is invoked.
\<close>

theorem no_session_only_replies:
  "user_sessions st (chat_id m) = None \<Longrightarrow>
   process_download env m st =
     (st, [ReplyTo (chat_id m) SEND_LINK_FIRST],
      bot_call env (ReplyTo (chat_id m) SEND_LINK_FIRST))"
  by (simp add: process_download_def Let_def)

theorem no_session_only_replies_witness:
  "user_sessions idle_state (chat_id mp4_request) = None
   \<and> process_download quiet_env mp4_request idle_state
       = (idle_state, [ReplyTo 7 SEND_LINK_FIRST], None)"
  using no_session_only_replies [of idle_state mp4_request quiet_env]
  by (simp add: idle_state_def mp4_request_def quiet_env_def bot_call_def)

text \<open>
  C2, as the code has it. \<open>user_sessions.pop\<close> is the last step before the completion
  message, inside the \<open>try\<close> block, and no \<open>except\<close> clause nor the \<open>finally\<close> block
  touches the sessions. So after an attempt the session of the conversation is absent
  exactly when the attempt reached the completion message; in every other case, which
  is every error raised before that step, the sessions are what they were.
\<close>

theorem session_removed_exactly_on_completion:
  assumes "user_sessions st (chat_id m) = Some sess"
    and "process_download env m st = (st', evs, out)"
  shows "user_sessions st' =
           (if completion (chat_id m) \<in> set evs
            then (user_sessions st)(chat_id m := None)
            else user_sessions st)"
proof -
  obtain st1 evs1 r where tb: "try_body env m sess st = (st1, evs1, r)"
    by (cases "try_body env m sess st") auto
  obtain evs2 out2 where ex: "except_clauses env m r = (evs2, out2)"
    by (cases "except_clauses env m r") auto
  let ?logs = "snd (cleanup_directory env (files st1))"
  have pd: "st' = st1\<lparr>files := fst (cleanup_directory env (files st1))\<rparr>"
           "evs = evs1 @ evs2 @ ?logs"
    using process_download_unfold [OF assms(1) tb] assms(2) ex by simp_all
  have "completion (chat_id m) \<notin> set evs2"
    using except_clauses_events [OF ex] by simp
  moreover have "completion (chat_id m) \<notin> set ?logs"
    by (rule logs_no_completion [OF cleanup_logs_only])
  ultimately have "completion (chat_id m) \<in> set evs \<longleftrightarrow> completion (chat_id m) \<in> set evs1"
    using pd(2) by auto
  then show ?thesis
    using try_body_inv(2) [OF tb] pd(1) by simp
qed

theorem session_removed_exactly_on_completion_witness:
  "user_sessions pending_state (chat_id mp4_request)
     = Some \<lparr>url = ''https://instagram.com/ABC123'', shortcode = ''ABC123''\<rparr>
   \<and> completion 7 \<in> set (fst (snd (process_download quiet_env mp4_request pending_state)))
   \<and> user_sessions (fst (process_download quiet_env mp4_request pending_state)) 7 = None
   \<and> completion 7 \<notin> set (fst (snd (process_download bad_response_env mp4_request pending_state)))
   \<and> user_sessions (fst (process_download bad_response_env mp4_request pending_state)) 7
       = Some \<lparr>url = ''https://instagram.com/ABC123'', shortcode = ''ABC123''\<rparr>"
proof -
  have h: "user_sessions pending_state (chat_id mp4_request)
             = Some \<lparr>url = ''https://instagram.com/ABC123'', shortcode = ''ABC123''\<rparr>"
    by (simp add: pending_state_def mp4_request_def)
  have c1: "completion 7 \<in> set (fst (snd (process_download quiet_env mp4_request pending_state)))"
    by code_simp
  have c2: "completion 7 \<notin> set (fst (snd (process_download bad_response_env mp4_request pending_state)))"
    by code_simp
  have id: "chat_id mp4_request = 7" by (simp add: mp4_request_def)
  have p: "\<And>x. x = (fst x, fst (snd x), snd (snd x))" by simp
  show ?thesis
    using h c1 c2
      session_removed_exactly_on_completion [OF h p, of quiet_env]
      session_removed_exactly_on_completion [OF h p, of bad_response_env]
    by (simp add: id)
qed

text \<open>
  C2, as stated, fails: when the retrieval client raises \<open>BadResponseException\<close> the
  error is handled (the user gets the content-specific reply, nothing leaves the
  handler), and the session of the conversation is still there.
\<close>

theorem failed_attempt_keeps_session_counterexample:
  "(case process_download bad_response_env mp4_request pending_state of
      (st, evs, out) \<Rightarrow> (user_sessions st 7, reply_texts evs, out))
   = (Some \<lparr>url = ''https://instagram.com/ABC123'', shortcode = ''ABC123''\<rparr>,
      [INSTAGRAM_ERROR], None)"
  by code_simp

text \<open>
  The retrieval client returns and no entry of the scratch directory has a name that
  ends with \<open>.mp4\<close> and contains the identifier. Under either reading of the call of
  \<open>next\<close> the exception raised for it reaches the last \<open>except\<close> clause, which logs a
  download error and reports it to the user with the text of the exception; the run
  has exactly the events below, followed by the records of the cleanup, and none of
  them is a delivery.
\<close>

lemma missing_video_is_reported_not_delivered:
  assumes "user_sessions st (chat_id m) = Some sess"
    and "bot_raises env (SendChatAction (chat_id m) ''typing'') = None"
    and "download_post env (shortcode sess) (files st) = Fetched fs"
    and "\<forall>f \<in> set (map fst fs). \<not> (suffix ''.mp4'' f \<and> sublist (shortcode sess) f)"
  shows "process_download env m st =
           (st\<lparr>files := fst (cleanup_directory env fs)\<rparr>,
            [SendChatAction (chat_id m) ''typing'', DownloadPost (shortcode sess),
             LogError (''Download error: '' @ str_of (no_match_error env)),
             ReplyTo (chat_id m) (ERROR_PREFIX @ str_of (no_match_error env))]
              @ snd (cleanup_directory env fs),
            bot_call env (ReplyTo (chat_id m) (ERROR_PREFIX @ str_of (no_match_error env))))
         \<and> list_all (\<lambda>ev. \<not> is_delivery ev) (fst (snd (process_download env m st)))"
proof -
  have nf: "find_video (shortcode sess) fs = None"
    using assms(4) by (simp add: find_video_None)
  have tb: "try_body env m sess st =
              (st\<lparr>files := fs\<rparr>,
               [SendChatAction (chat_id m) ''typing'', DownloadPost (shortcode sess)],
               Some (no_match_error env))"
    using assms(2,3) nf
    by (simp add: try_body_def next_video_def no_match_error_def Let_def bot_call_def)
  have ex: "except_clauses env m (Some (no_match_error env)) =
              ([LogError (''Download error: '' @ str_of (no_match_error env)),
                ReplyTo (chat_id m) (ERROR_PREFIX @ str_of (no_match_error env))],
               bot_call env (ReplyTo (chat_id m) (ERROR_PREFIX @ str_of (no_match_error env))))"
    by (simp add: no_match_error_def Let_def)
  have eq: "process_download env m st =
           (st\<lparr>files := fst (cleanup_directory env fs)\<rparr>,
            [SendChatAction (chat_id m) ''typing'', DownloadPost (shortcode sess),
             LogError (''Download error: '' @ str_of (no_match_error env)),
             ReplyTo (chat_id m) (ERROR_PREFIX @ str_of (no_match_error env))]
              @ snd (cleanup_directory env fs),
            bot_call env (ReplyTo (chat_id m) (ERROR_PREFIX @ str_of (no_match_error env))))"
    using process_download_unfold [OF assms(1) tb] by (simp add: ex)
  have "list_all (\<lambda>ev. \<not> is_delivery ev) (snd (cleanup_directory env fs))"
    by (rule logs_no_delivery [OF cleanup_logs_only])
  then show ?thesis
    unfolding eq by simp
qed

text \<open>
  C4. The claim names the class of the error: file not found. The code raises
  \<open>FileNotFoundError\<close> in the statement after the call of \<open>next\<close>, and the call as it is
  written does not get there. Closed where it stands, \<open>next\<close> raises \<open>StopIteration\<close>
  when nothing matches: the log record and the reply carry an empty text and the
  statement that raises \<open>FileNotFoundError\<close> is not reached. Only with a default added
  does the run report the missing file by its class and text. In both runs nothing is
  delivered and the handler returns.
\<close>

theorem missing_video_class_depends_on_next:
  "(case process_download no_file_plain_env mp3_request pending_state of
      (st, evs, out) \<Rightarrow> (reply_texts evs, filter is_log evs, filter is_delivery evs, out))
   = ([ERROR_PREFIX], [LogError ''Download error: ''], [], None)
   \<and> (case process_download no_file_env mp3_request pending_state of
      (st, evs, out) \<Rightarrow> (reply_texts evs, filter is_log evs, filter is_delivery evs, out))
   = ([ERROR_PREFIX @ ''Downloaded file not found''],
      [LogError ''Download error: Downloaded file not found''], [], None)"
  by code_simp

text \<open>
  C5. Whatever the attempt did and however it ended (\<open>attempt\<close> is the \<open>try\<close> block with
  its \<open>except\<close> clauses), the cleanup runs on the scratch directory as the attempt left
  it: every regular file whose unlink succeeds is gone, every other entry stays, each
  failed unlink is logged, and the outcome of the handler is the outcome of the
  attempt, so the cleanup raises nothing. A regular file that is left is one whose
  unlink failed.
\<close>

theorem cleanup_runs_after_every_attempt:
  assumes "user_sessions st (chat_id m) = Some sess"
    and "attempt env m sess st = (st1, evs, out)"
  shows "process_download env m st =
           (st1\<lparr>files := filter (\<lambda>(n, k). \<not> deletable env (files st1) n) (files st1)\<rparr>,
            evs @ concat (map (delete_log env (files st1)) (map fst (files st1))),
            out)
         \<and> (\<forall>n. isfile (filter (\<lambda>(n, k). \<not> deletable env (files st1) n) (files st1)) n
                \<longrightarrow> unlink_raises env (join_path DOWNLOAD_DIR n) \<noteq> None)"
proof
  show "process_download env m st =
           (st1\<lparr>files := filter (\<lambda>(n, k). \<not> deletable env (files st1) n) (files st1)\<rparr>,
            evs @ concat (map (delete_log env (files st1)) (map fst (files st1))),
            out)"
    using assms by (simp add: process_download_def cleanup_directory_closed)
  show "\<forall>n. isfile (filter (\<lambda>(n, k). \<not> deletable env (files st1) n) (files st1)) n
                \<longrightarrow> unlink_raises env (join_path DOWNLOAD_DIR n) \<noteq> None"
    by (auto simp: isfile_def map_of_filter_key deletable_def split: if_splits)
qed

theorem cleanup_runs_after_every_attempt_witness:
  "user_sessions pending_state (chat_id mp3_request)
     = Some \<lparr>url = ''https://instagram.com/ABC123'', shortcode = ''ABC123''\<rparr>
   \<and> files (fst (process_download stuck_file_env mp3_request pending_state))
       = [(''locked.tmp'', RegularFile), (''sub'', Directory)]
   \<and> fst (snd (process_download stuck_file_env mp3_request pending_state))
       = [SendChatAction 7 ''typing'', DownloadPost ''ABC123'',
          LogError ''Download error: timed out'', ReplyTo 7 (ERROR_PREFIX @ ''timed out''),
          LogError ''Failed to delete downloads/locked.tmp: busy'']
   \<and> snd (snd (process_download stuck_file_env mp3_request pending_state)) = None
   \<and> unlink_raises stuck_file_env (join_path DOWNLOAD_DIR ''locked.tmp'') \<noteq> None"
proof -
  let ?sess = "\<lparr>url = ''https://instagram.com/ABC123'', shortcode = ''ABC123''\<rparr>"
  let ?a = "attempt stuck_file_env mp3_request ?sess pending_state"
  have h: "user_sessions pending_state (chat_id mp3_request) = Some ?sess"
    by (simp add: pending_session mp3_request_def)
  have a: "files (fst ?a) = [(''locked.tmp'', RegularFile), (''sub'', Directory)]"
          "fst (snd ?a) = [SendChatAction 7 ''typing'', DownloadPost ''ABC123'',
             LogError ''Download error: timed out'', ReplyTo 7 (ERROR_PREFIX @ ''timed out'')]"
          "snd (snd ?a) = None"
    by code_simp+
  have d: "filter (\<lambda>(n, k). \<not> deletable stuck_file_env [(''locked.tmp'', RegularFile), (''sub'', Directory)] n)
             [(''locked.tmp'', RegularFile), (''sub'', Directory)]
           = [(''locked.tmp'', RegularFile), (''sub'', Directory)]"
          "concat (map (delete_log stuck_file_env [(''locked.tmp'', RegularFile), (''sub'', Directory)])
             (map fst [(''locked.tmp'', RegularFile), (''sub'', Directory)]))
           = [LogError ''Failed to delete downloads/locked.tmp: busy'']"
          "isfile [(''locked.tmp'', RegularFile), (''sub'', Directory)] ''locked.tmp''"
    by code_simp+
  have e: "?a = (fst ?a, fst (snd ?a), snd (snd ?a))"
    by simp
  note t = cleanup_runs_after_every_attempt [OF h e, unfolded a d]
  from t have "unlink_raises stuck_file_env (join_path DOWNLOAD_DIR ''locked.tmp'') \<noteq> None"
    using d(3) by blast
  with t h show ?thesis by simp
qed

text \<open>
  When the conversion exits with a non-zero status and its error output is text, the
  handler logs the output, replies that the conversion failed and cleans up.
\<close>

lemma conversion_failure_with_text:
  assumes "user_sessions st (chat_id m) = Some sess"
    and "bot_raises env (SendChatAction (chat_id m) ''typing'') = None"
    and "download_post env (shortcode sess) (files st) = Fetched fs"
    and "find_video (shortcode sess) fs = Some v"
    and "\<not> sublist ''MP4'' (msg_text m)"
    and "run_ffmpeg env (join_path DOWNLOAD_DIR v)
           (join_path DOWNLOAD_DIR (shortcode sess @ ''.mp3'')) fs = ExitedNonZero (Some t) fs'"
  shows "process_download env m st =
           (st\<lparr>files := fst (cleanup_directory env fs')\<rparr>,
            [SendChatAction (chat_id m) ''typing'', DownloadPost (shortcode sess),
             RunFfmpeg (join_path DOWNLOAD_DIR v)
               (join_path DOWNLOAD_DIR (shortcode sess @ ''.mp3'')),
             LogError (''FFmpeg error: '' @ t), ReplyTo (chat_id m) CONVERSION_FAILED]
              @ snd (cleanup_directory env fs'),
            bot_call env (ReplyTo (chat_id m) CONVERSION_FAILED))"
proof -
  have tb: "try_body env m sess st =
              (st\<lparr>files := fs'\<rparr>,
               [SendChatAction (chat_id m) ''typing'', DownloadPost (shortcode sess),
                RunFfmpeg (join_path DOWNLOAD_DIR v)
                  (join_path DOWNLOAD_DIR (shortcode sess @ ''.mp3''))],
               Some (CalledProcessError (Some t)))"
    using assms(2-6) find_video_nonempty [OF assms(4)]
    by (simp add: try_body_def next_video_def send_as_audio_def Let_def bot_call_def)
  show ?thesis
    using process_download_unfold [OF assms(1) tb] by (simp add: Let_def)
qed

text \<open>
  C6. The conversion exits with a non-zero status and its captured error output is not
  valid UTF-8: \<open>e.stderr.decode()\<close> raises inside the \<open>except\<close> clause, before the log
  record and before the reply. The user gets no message, nothing is logged, the
  exception leaves the handler; the cleanup still runs.
\<close>

theorem undecodable_stderr_skips_reply:
  "(case process_download ffmpeg_fails_env mp3_request pending_state of
      (st, evs, out) \<Rightarrow> (files st, reply_texts evs, filter is_log evs, out))
   = ([(''sub'', Directory)], [], [], Some (UnicodeDecodeError ''invalid start byte''))"
  by code_simp

text \<open>
  C8. An exception of the \<open>try\<close> block of class \<open>BadResponseException\<close> gets the
  content-specific reply and no other; an exception that is neither of that class nor
  a \<open>CalledProcessError\<close> is logged and gets the generic reply, which ends with the
  text of the exception. The two replies differ whatever that text is.
\<close>

theorem error_classes_keep_their_messages:
  assumes "user_sessions st (chat_id m) = Some sess"
    and "try_body env m sess st = (st1, evs1, Some e)"
    and "process_download env m st = (st', evs, out)"
  shows "(is_bad_response e \<longrightarrow> reply_texts evs = [INSTAGRAM_ERROR])
       \<and> (\<not> is_bad_response e \<and> \<not> is_called_process_error e \<longrightarrow>
            reply_texts evs = [ERROR_PREFIX @ str_of e]
            \<and> LogError (''Download error: '' @ str_of e) \<in> set evs)
       \<and> INSTAGRAM_ERROR \<noteq> ERROR_PREFIX @ s"
proof -
  let ?logs = "snd (cleanup_directory env (files st1))"
  have evs: "evs = evs1 @ fst (except_clauses env m (Some e)) @ ?logs"
    using process_download_unfold [OF assms(1,2)] assms(3) by simp
  have r1: "reply_texts evs1 = []"
    by (rule try_body_inv(1) [OF assms(2)])
  have r3: "reply_texts ?logs = []"
    by (rule reply_texts_logs [OF cleanup_logs_only])
  have rt: "reply_texts evs = reply_texts (fst (except_clauses env m (Some e)))"
    using r1 r3 by (simp add: evs reply_texts_append)
  have a: "is_bad_response e \<longrightarrow> reply_texts evs = [INSTAGRAM_ERROR]"
    unfolding rt by (cases e) (simp_all add: is_bad_response_def Let_def)
  have b: "\<not> is_bad_response e \<and> \<not> is_called_process_error e \<longrightarrow>
            reply_texts evs = [ERROR_PREFIX @ str_of e]
            \<and> LogError (''Download error: '' @ str_of e) \<in> set evs"
    unfolding rt unfolding evs
    by (cases e) (simp_all add: is_bad_response_def is_called_process_error_def Let_def)
  have c: "INSTAGRAM_ERROR \<noteq> ERROR_PREFIX @ s"
    by (simp add: INSTAGRAM_ERROR_def ERROR_PREFIX_def CROSS_MARK_def)
  show ?thesis using a b c by blast
qed

theorem error_classes_keep_their_messages_witness:
  "reply_texts (fst (snd (process_download bad_response_env mp4_request pending_state)))
     = [INSTAGRAM_ERROR]
   \<and> reply_texts (fst (snd (process_download stuck_file_env mp4_request pending_state)))
     = [ERROR_PREFIX @ ''timed out'']
   \<and> INSTAGRAM_ERROR \<noteq> ERROR_PREFIX @ ''timed out''"
proof -
  let ?sess = "\<lparr>url = ''https://instagram.com/ABC123'', shortcode = ''ABC123''\<rparr>"
  have h: "user_sessions pending_state (chat_id mp4_request) = Some ?sess"
    by (simp add: pending_session mp4_request_def)
  have t1: "try_body bad_response_env mp4_request ?sess pending_state
              = (pending_state, [SendChatAction 7 ''typing'', DownloadPost ''ABC123''],
                 Some (BadResponseException ''404''))"
    by (simp add: try_body_def Let_def bot_call_def bad_response_env_def quiet_env_def
          mp4_request_def)
  have t2: "try_body stuck_file_env mp4_request ?sess pending_state
              = (pending_state, [SendChatAction 7 ''typing'', DownloadPost ''ABC123''],
                 Some (OtherException ''timed out''))"
    by (simp add: try_body_def Let_def bot_call_def stuck_file_env_def quiet_env_def
          mp4_request_def)
  have e1: "process_download bad_response_env mp4_request pending_state
              = (fst (process_download bad_response_env mp4_request pending_state),
                 fst (snd (process_download bad_response_env mp4_request pending_state)),
                 snd (snd (process_download bad_response_env mp4_request pending_state)))"
    by simp
  have e2: "process_download stuck_file_env mp4_request pending_state
              = (fst (process_download stuck_file_env mp4_request pending_state),
                 fst (snd (process_download stuck_file_env mp4_request pending_state)),
                 snd (snd (process_download stuck_file_env mp4_request pending_state)))"
    by simp
  show ?thesis
    using error_classes_keep_their_messages [OF h t1 e1, where s = "''timed out''"]
          error_classes_keep_their_messages [OF h t2 e2, where s = "''timed out''"]
    by (simp add: is_bad_response_def is_called_process_error_def)
qed

end
